theory Spec2Isabelle
  imports Main
begin

section \<open>The flights service (src/flights/app.py)\<close>

subsection \<open>Values, log records and the state a request runs in\<close>

text \<open>
  The Python values the handlers pass around: \<open>None\<close>, strings, integers and lists.
\<close>

datatype pyval = PyNone | PyStr string | PyInt int | PyList "pyval list"

text \<open>
  What \<open>request.args.get(key)\<close> returns: the value of the query parameter, or
  \<open>None\<close> when the request has no such parameter.
\<close>

type_synonym query_args = "string \<rightharpoonup> string"

fun arg_val :: "string option \<Rightarrow> pyval" where
  "arg_val None = PyNone"
| "arg_val (Some v) = PyStr v"

text \<open>
  Truth value of \<open>if status_code:\<close> where \<open>status_code\<close> is \<open>None\<close> or a string:
  \<open>None\<close> and the empty string are false, every other string is true.
\<close>

fun truthy :: "string option \<Rightarrow> bool" where
  "truthy None = False"
| "truthy (Some v) = (v \<noteq> [])"

text \<open>The text an f-string puts for \<open>{status_code}\<close>.\<close>

fun py_str :: "string option \<Rightarrow> string" where
  "py_str None = ''None''"
| "py_str (Some v) = v"

text \<open>
  The logging levels used, with the numbers of Python's \<open>logging\<close> module. A log call
  is kept as the record \<open>logging\<close> builds from it: level, format string, arguments.
\<close>

datatype level = INFO | ERROR

fun level_no :: "level \<Rightarrow> nat" where
  "level_no INFO = 20"
| "level_no ERROR = 40"

text \<open>
  The effects of a request, in the order they happen: a log record handed to the
  logging handler, or one call of the random generator with its bounds and result.
\<close>

datatype effect = Log level string "pyval list" | RandomInt int int int

record world =
  trace :: "effect list"
  rng :: "nat \<Rightarrow> nat"

text \<open>\<open>logging.basicConfig(level=logging.INFO, ...)\<close>: records below INFO are dropped.\<close>

definition root_level :: level where
  "root_level = INFO"

definition logger_log :: "level \<Rightarrow> string \<Rightarrow> pyval list \<Rightarrow> world \<Rightarrow> world" where
  "logger_log lvl msg margs s =
     (if level_no root_level \<le> level_no lvl
      then s\<lparr>trace := trace s @ [Log lvl msg margs]\<rparr> else s)"

definition logger_info :: "string \<Rightarrow> pyval list \<Rightarrow> world \<Rightarrow> world" where
  "logger_info = logger_log INFO"

definition logger_error :: "string \<Rightarrow> pyval list \<Rightarrow> world \<Rightarrow> world" where
  "logger_error = logger_log ERROR"

subsection \<open>The random identifier generator\<close>

text \<open>
  Modelled from the spec: \<open>get_random_int\<close> is imported from the module \<open>utils\<close>,
  which is not among the source files. By the spec (4.2), \<open>RandomInt(low, high)\<close>
  returns an integer of the inclusive range \<open>[low, high]\<close>. The generator's state
  \<open>rng\<close> is the sequence of raw draws still to come; one call consumes the draw at
  position 0 and reduces it into the range. The contract says nothing for
  \<open>high < low\<close>, and the handlers only call it with 100 and 999. The call is recorded
  in the trace.
\<close>

definition get_random_int :: "int \<Rightarrow> int \<Rightarrow> world \<Rightarrow> int \<times> world" where
  "get_random_int low high s =
     (let n = low + int (rng s 0) mod (high - low + 1)
      in (n, s\<lparr>trace := trace s @ [RandomInt low high n],
               rng := (\<lambda>i. rng s (Suc i))\<rparr>))"

subsection \<open>Responses\<close>

datatype json = JNull | JString string | JNumber int | JArray "json list"

fun to_json :: "pyval \<Rightarrow> json" where
  "to_json PyNone = JNull"
| "to_json (PyStr v) = JString v"
| "to_json (PyInt i) = JNumber i"
| "to_json (PyList vs) = JArray (map to_json vs)"

text \<open>\<open>jsonify(d)\<close> of a dictionary: the JSON object with the same keys.\<close>

definition jsonify :: "(string \<rightharpoonup> pyval) \<Rightarrow> (string \<rightharpoonup> json)" where
  "jsonify d = (\<lambda>k. map_option to_json (d k))"

record response =
  body :: "string \<rightharpoonup> json"
  status :: int

text \<open>\<open>raise Exception(msg)\<close> leaves the handler: the result is \<open>Inl (Exception msg)\<close>.\<close>

datatype exn = Exception string

type_synonym result = "exn + response"

subsection \<open>The four handlers\<close>

definition health :: "world \<Rightarrow> result \<times> world" where
  "health s =
     (let s1 = logger_info ''Health check endpoint called'' [] s
      in (Inr \<lparr>body = jsonify [''status'' \<mapsto> PyStr ''healthy''], status = 200\<rparr>, s1))"

definition home :: "world \<Rightarrow> result \<times> world" where
  "home s =
     (let s1 = logger_info ''Home endpoint called'' [] s
      in (Inr \<lparr>body = jsonify [''message'' \<mapsto> PyStr ''ok''], status = 200\<rparr>, s1))"

definition get_flights :: "string \<Rightarrow> query_args \<Rightarrow> world \<Rightarrow> result \<times> world" where
  "get_flights airline args s =
     (let status_code = args ''raise'';
          s1 = logger_info ''Get flights endpoint called for airline=%s, raise=%s''
                 [PyStr airline, arg_val status_code] s
      in if truthy status_code then
           let s2 = logger_error
                      ''Exception intentionally raised in flights endpoint for airline=%s''
                      [PyStr airline] s1
           in (Inl (Exception (''Encountered '' @ py_str status_code @ '' error'')), s2)
         else
           let (random_int, s2) = get_random_int 100 999 s1;
               s3 = logger_info ''Returning flight %s for airline %s''
                      [PyInt random_int, PyStr airline] s2
           in (Inr \<lparr>body = jsonify [airline \<mapsto> PyList [PyInt random_int]], status = 200\<rparr>,
               s3))"

definition book_flight :: "query_args \<Rightarrow> world \<Rightarrow> result \<times> world" where
  "book_flight args s =
     (let passenger_name = args ''passenger_name'';
          flight_num = args ''flight_num'';
          status_code = args ''raise'';
          s1 = logger_info
                 ''Book flight endpoint called for passenger=%s, flight_num=%s, raise=%s''
                 [arg_val passenger_name, arg_val flight_num, arg_val status_code] s
      in if truthy status_code then
           let s2 = logger_error
                      ''Exception intentionally raised in book flight endpoint for passenger=%s''
                      [arg_val passenger_name] s1
           in (Inl (Exception (''Encountered '' @ py_str status_code @ '' error'')), s2)
         else
           let (booking_id, s2) = get_random_int 100 999 s1;
               s3 = logger_info ''Booked flight %s for passenger %s with booking_id %s''
                      [arg_val flight_num, arg_val passenger_name, PyInt booking_id] s2
           in (Inr \<lparr>body = jsonify [''passenger_name'' \<mapsto> arg_val passenger_name,
                                     ''flight_num'' \<mapsto> arg_val flight_num,
                                     ''booking_id'' \<mapsto> PyInt booking_id],
                    status = 200\<rparr>,
               s3))"

subsection \<open>The transport layer\<close>

text \<open>
  Modelled from the spec: the web framework that calls the handlers and sends their
  results is not part of src/. By the spec (7), an exception that leaves a handler is
  converted by the transport layer into a generic server-error response, status 500;
  a response the handler returns is sent with the status the handler gave it.
\<close>

definition sent_status :: "result \<Rightarrow> int" where
  "sent_status r = (case r of Inl e \<Rightarrow> 500 | Inr resp \<Rightarrow> status resp)"

text \<open>
  The four routes registered with \<open>@app.route\<close>, and the service handling one request
  after the other; the state left by a request, whether it returned or raised, is the
  state the next one starts in.
\<close>

datatype request =
  GET_health | GET_home | GET_flights string query_args | POST_flight query_args

fun dispatch :: "request \<Rightarrow> world \<Rightarrow> result \<times> world" where
  "dispatch GET_health s = health s"
| "dispatch GET_home s = home s"
| "dispatch (GET_flights airline args) s = get_flights airline args s"
| "dispatch (POST_flight args) s = book_flight args s"

fun serve :: "request list \<Rightarrow> world \<Rightarrow> world" where
  "serve [] s = s"
| "serve (r # rs) s = serve rs (snd (dispatch r s))"

text \<open>The invariant of the data model, on one effect: a generated integer is in [100, 999].\<close>

fun id_in_range :: "effect \<Rightarrow> bool" where
  "id_in_range (RandomInt low high n) = (100 \<le> n \<and> n \<le> 999)"
| "id_in_range (Log lvl msg margs) = True"

section \<open>Properties\<close>

subsection \<open>Logging and the generator\<close>

lemma logger_info_eq: "logger_info msg margs s = s\<lparr>trace := trace s @ [Log INFO msg margs]\<rparr>"
  by (simp add: logger_info_def logger_log_def root_level_def)

lemma logger_error_eq: "logger_error msg margs s = s\<lparr>trace := trace s @ [Log ERROR msg margs]\<rparr>"
  by (simp add: logger_error_def logger_log_def root_level_def)

lemma get_random_int_fst:
  "fst (get_random_int low high s) = low + int (rng s 0) mod (high - low + 1)"
  by (simp add: get_random_int_def Let_def)

lemma get_random_int_snd:
  "snd (get_random_int low high s) =
     s\<lparr>trace := trace s @ [RandomInt low high (fst (get_random_int low high s))],
       rng := (\<lambda>i. rng s (Suc i))\<rparr>"
  by (simp add: get_random_int_def Let_def)

lemma get_random_int_range:
  "100 \<le> fst (get_random_int 100 999 s) \<and> fst (get_random_int 100 999 s) \<le> 999"
  by (simp add: get_random_int_fst)

subsection \<open>The two paths of the parameterised handlers\<close>

lemma get_flights_fail:
  assumes "truthy (args ''raise'')"
  shows "get_flights airline args s =
    (Inl (Exception (''Encountered '' @ py_str (args ''raise'') @ '' error'')),
     s\<lparr>trace := trace s @
        [Log INFO ''Get flights endpoint called for airline=%s, raise=%s''
           [PyStr airline, arg_val (args ''raise'')],
         Log ERROR ''Exception intentionally raised in flights endpoint for airline=%s''
           [PyStr airline]]\<rparr>)"
  using assms by (simp add: get_flights_def Let_def logger_info_eq logger_error_eq)

lemma get_flights_ok:
  assumes "\<not> truthy (args ''raise'')"
  shows "get_flights airline args s =
    (Inr \<lparr>body = [airline \<mapsto> JArray [JNumber (fst (get_random_int 100 999 s))]],
          status = 200\<rparr>,
     s\<lparr>trace := trace s @
        [Log INFO ''Get flights endpoint called for airline=%s, raise=%s''
           [PyStr airline, arg_val (args ''raise'')],
         RandomInt 100 999 (fst (get_random_int 100 999 s)),
         Log INFO ''Returning flight %s for airline %s''
           [PyInt (fst (get_random_int 100 999 s)), PyStr airline]],
       rng := (\<lambda>i. rng s (Suc i))\<rparr>)"
  using assms
  by (simp add: get_flights_def Let_def logger_info_eq split_def get_random_int_fst
        get_random_int_snd jsonify_def fun_eq_iff)

lemma book_flight_fail:
  assumes "truthy (args ''raise'')"
  shows "book_flight args s =
    (Inl (Exception (''Encountered '' @ py_str (args ''raise'') @ '' error'')),
     s\<lparr>trace := trace s @
        [Log INFO ''Book flight endpoint called for passenger=%s, flight_num=%s, raise=%s''
           [arg_val (args ''passenger_name''), arg_val (args ''flight_num''),
            arg_val (args ''raise'')],
         Log ERROR ''Exception intentionally raised in book flight endpoint for passenger=%s''
           [arg_val (args ''passenger_name'')]]\<rparr>)"
  using assms by (simp add: book_flight_def Let_def logger_info_eq logger_error_eq)

lemma book_flight_ok:
  assumes "\<not> truthy (args ''raise'')"
  shows "book_flight args s =
    (Inr \<lparr>body = [''passenger_name'' \<mapsto> to_json (arg_val (args ''passenger_name'')),
                  ''flight_num'' \<mapsto> to_json (arg_val (args ''flight_num'')),
                  ''booking_id'' \<mapsto> JNumber (fst (get_random_int 100 999 s))],
          status = 200\<rparr>,
     s\<lparr>trace := trace s @
        [Log INFO ''Book flight endpoint called for passenger=%s, flight_num=%s, raise=%s''
           [arg_val (args ''passenger_name''), arg_val (args ''flight_num''),
            arg_val (args ''raise'')],
         RandomInt 100 999 (fst (get_random_int 100 999 s)),
         Log INFO ''Booked flight %s for passenger %s with booking_id %s''
           [arg_val (args ''flight_num''), arg_val (args ''passenger_name''),
            PyInt (fst (get_random_int 100 999 s))]],
       rng := (\<lambda>i. rng s (Suc i))\<rparr>)"
  using assms
  by (simp add: book_flight_def Let_def logger_info_eq split_def get_random_int_fst
        get_random_int_snd jsonify_def fun_eq_iff)

lemma health_eq:
  "health s =
     (Inr \<lparr>body = [''status'' \<mapsto> JString ''healthy''], status = 200\<rparr>,
      s\<lparr>trace := trace s @ [Log INFO ''Health check endpoint called'' []]\<rparr>)"
  by (simp add: health_def logger_info_eq jsonify_def fun_eq_iff)

lemma home_eq:
  "home s =
     (Inr \<lparr>body = [''message'' \<mapsto> JString ''ok''], status = 200\<rparr>,
      s\<lparr>trace := trace s @ [Log INFO ''Home endpoint called'' []]\<rparr>)"
  by (simp add: home_def logger_info_eq jsonify_def fun_eq_iff)

subsection \<open>The range invariant over a run of the service\<close>

lemma dispatch_keeps_range:
  assumes "list_all id_in_range (trace s)"
  shows "list_all id_in_range (trace (snd (dispatch r s)))"
proof (cases r)
  case GET_health
  with assms show ?thesis by (simp add: health_eq)
next
  case GET_home
  with assms show ?thesis by (simp add: home_eq)
next
  case (GET_flights airline args)
  with assms show ?thesis
    by (cases "truthy (args ''raise'')")
       (simp_all add: get_flights_fail get_flights_ok get_random_int_range)
next
  case (POST_flight args)
  with assms show ?thesis
    by (cases "truthy (args ''raise'')")
       (simp_all add: book_flight_fail book_flight_ok get_random_int_range)
qed

lemma serve_keeps_range:
  "list_all id_in_range (trace s) \<Longrightarrow> list_all id_in_range (trace (serve rs s))"
  by (induction rs arbitrary: s) (simp_all add: dispatch_keeps_range)

subsection \<open>The claims\<close>

text \<open>
  C6: the health check takes no input; in every state it returns the body
  \<open>{"status": "healthy"}\<close> with status 200, never an exception, and its only effect
  is one log record of level INFO.
\<close>

theorem health_always_healthy:
  "health s =
     (Inr \<lparr>body = [''status'' \<mapsto> JString ''healthy''], status = 200\<rparr>,
      s\<lparr>trace := trace s @ [Log INFO ''Health check endpoint called'' []]\<rparr>)"
  by (simp add: health_def logger_info_eq jsonify_def fun_eq_iff)

text \<open>
  C1: when the \<open>raise\<close> parameter is any non-empty string \<open>code\<close>, both
  \<open>get_flights\<close> and \<open>book_flight\<close> log the entry record and then a record of level
  ERROR, and end in the exception whose message is \<open>Encountered code error\<close>; the
  exception leaves the handler, and the transport layer answers with status 500.
\<close>

theorem failure_injection_raises:
  assumes "args ''raise'' = Some code" and "code \<noteq> []"
  shows
    "get_flights airline args s =
       (Inl (Exception (''Encountered '' @ code @ '' error'')),
        s\<lparr>trace := trace s @
          [Log INFO ''Get flights endpoint called for airline=%s, raise=%s''
             [PyStr airline, PyStr code],
           Log ERROR ''Exception intentionally raised in flights endpoint for airline=%s''
             [PyStr airline]]\<rparr>) \<and>
     book_flight args s =
       (Inl (Exception (''Encountered '' @ code @ '' error'')),
        s\<lparr>trace := trace s @
          [Log INFO ''Book flight endpoint called for passenger=%s, flight_num=%s, raise=%s''
             [arg_val (args ''passenger_name''), arg_val (args ''flight_num''), PyStr code],
           Log ERROR
             ''Exception intentionally raised in book flight endpoint for passenger=%s''
             [arg_val (args ''passenger_name'')]]\<rparr>) \<and>
     sent_status (fst (get_flights airline args s)) = 500 \<and>
     sent_status (fst (book_flight args s)) = 500"
proof -
  from assms have t: "truthy (args ''raise'')" by simp
  with assms show ?thesis
    by (simp add: get_flights_fail book_flight_fail sent_status_def)
qed

theorem failure_injection_raises_witness:
  "[''raise'' \<mapsto> ''teapot''] ''raise'' = Some ''teapot'' \<and> ''teapot'' \<noteq> [] \<and>
   fst (get_flights ''AA'' [''raise'' \<mapsto> ''teapot''] \<lparr>trace = [], rng = (\<lambda>i. 1042 + i)\<rparr>) =
     Inl (Exception ''Encountered teapot error'') \<and>
   trace (snd (get_flights ''AA'' [''raise'' \<mapsto> ''teapot'']
                 \<lparr>trace = [], rng = (\<lambda>i. 1042 + i)\<rparr>)) =
     [Log INFO ''Get flights endpoint called for airline=%s, raise=%s''
        [PyStr ''AA'', PyStr ''teapot''],
      Log ERROR ''Exception intentionally raised in flights endpoint for airline=%s''
        [PyStr ''AA'']] \<and>
   fst (book_flight [''raise'' \<mapsto> ''teapot''] \<lparr>trace = [], rng = (\<lambda>i. 1042 + i)\<rparr>) =
     Inl (Exception ''Encountered teapot error'') \<and>
   sent_status (fst (get_flights ''AA'' [''raise'' \<mapsto> ''teapot'']
                      \<lparr>trace = [], rng = (\<lambda>i. 1042 + i)\<rparr>)) = 500 \<and>
   sent_status (fst (book_flight [''raise'' \<mapsto> ''teapot'']
                      \<lparr>trace = [], rng = (\<lambda>i. 1042 + i)\<rparr>)) = 500"
  using failure_injection_raises [where args = "[''raise'' \<mapsto> ''teapot'']"
      and code = "''teapot''" and airline = "''AA''"
      and s = "\<lparr>trace = [], rng = (\<lambda>i. 1042 + i)\<rparr>"]
  by (simp add: sent_status_def)

text \<open>
  C2: every integer the generator produces for the service lies in [100, 999]: a call
  with the bounds the handlers use returns such a value, and if all integers generated
  so far are in the range, they still all are after the service has handled any list of
  requests, whatever the requests and the raw draws.
\<close>

theorem generated_ids_in_range:
  "100 \<le> fst (get_random_int 100 999 s) \<and> fst (get_random_int 100 999 s) \<le> 999 \<and>
   (list_all id_in_range (trace s) \<longrightarrow> list_all id_in_range (trace (serve rs s)))"
  by (simp add: get_random_int_range serve_keeps_range)

theorem generated_ids_in_range_witness:
  "list_all id_in_range (trace \<lparr>trace = [], rng = (\<lambda>i. 1042 + i)\<rparr>) \<and>
   list_all id_in_range
     (trace (serve [GET_flights ''AA'' Map.empty, POST_flight [''raise'' \<mapsto> ''500''],
                    POST_flight Map.empty] \<lparr>trace = [], rng = (\<lambda>i. 1042 + i)\<rparr>)) \<and>
   100 \<le> fst (get_random_int 100 999 \<lparr>trace = [], rng = (\<lambda>i. 1042 + i)\<rparr>) \<and> fst (get_random_int 100 999 \<lparr>trace = [], rng = (\<lambda>i. 1042 + i)\<rparr>) \<le> 999"
  using generated_ids_in_range [where s = "\<lparr>trace = [], rng = (\<lambda>i. 1042 + i)\<rparr>"
      and rs = "[GET_flights ''AA'' Map.empty, POST_flight [''raise'' \<mapsto> ''500''],
                 POST_flight Map.empty]"]
  by simp

text \<open>
  C3: a handler ends in an exception exactly when the \<open>raise\<close> parameter is a
  non-empty string (never for \<open>health\<close> and \<open>home\<close>); without such a parameter each
  of the four operations returns status 200 and a body with exactly the expected keys.
\<close>

theorem success_without_failure_trigger:
  "isl (fst (get_flights airline args s)) = truthy (args ''raise'') \<and>
   isl (fst (book_flight args s)) = truthy (args ''raise'') \<and>
   (\<exists>resp. fst (health s) = Inr resp \<and> status resp = 200 \<and>
      dom (body resp) = {''status''}) \<and>
   (\<exists>resp. fst (home s) = Inr resp \<and> status resp = 200 \<and>
      dom (body resp) = {''message''}) \<and>
   (\<not> truthy (args ''raise'') \<longrightarrow>
      (\<exists>resp. fst (get_flights airline args s) = Inr resp \<and> status resp = 200 \<and>
         dom (body resp) = {airline}) \<and>
      (\<exists>resp. fst (book_flight args s) = Inr resp \<and> status resp = 200 \<and>
         dom (body resp) = {''passenger_name'', ''flight_num'', ''booking_id''}))"
proof (cases "truthy (args ''raise'')")
  case True
  then show ?thesis
    by (simp add: get_flights_fail book_flight_fail health_eq home_eq)
next
  case False
  then show ?thesis
    by (simp add: get_flights_ok book_flight_ok health_eq home_eq insert_commute)
qed

theorem success_without_failure_trigger_witness:
  "\<not> truthy ([''raise'' \<mapsto> ''''] ''raise'') \<and>
   \<not> isl (fst (get_flights ''AA'' [''raise'' \<mapsto> ''''] \<lparr>trace = [], rng = (\<lambda>i. 1042 + i)\<rparr>)) \<and>
   \<not> isl (fst (book_flight [''raise'' \<mapsto> ''''] \<lparr>trace = [], rng = (\<lambda>i. 1042 + i)\<rparr>)) \<and>
   (\<exists>resp. fst (get_flights ''AA'' [''raise'' \<mapsto> ''''] \<lparr>trace = [], rng = (\<lambda>i. 1042 + i)\<rparr>) = Inr resp \<and>
      status resp = 200 \<and> dom (body resp) = {''AA''}) \<and>
   (\<exists>resp. fst (book_flight [''raise'' \<mapsto> ''''] \<lparr>trace = [], rng = (\<lambda>i. 1042 + i)\<rparr>) = Inr resp \<and>
      status resp = 200 \<and>
      dom (body resp) = {''passenger_name'', ''flight_num'', ''booking_id''})"
  using success_without_failure_trigger [where args = "[''raise'' \<mapsto> '''']"
      and airline = "''AA''" and s = "\<lparr>trace = [], rng = (\<lambda>i. 1042 + i)\<rparr>"]
  by simp

text \<open>
  C4: when the \<open>raise\<close> parameter is absent or empty, \<open>get_flights\<close> for the airline
  \<open>AA\<close> returns status 200 and the body \<open>{"AA": [N]}\<close>, one integer N with
  100 \<le> N \<le> 999.
\<close>

theorem lookup_AA_shape:
  assumes "\<not> truthy (args ''raise'')"
  shows "\<exists>n. 100 \<le> n \<and> n \<le> 999 \<and>
           fst (get_flights ''AA'' args s) =
             Inr \<lparr>body = [''AA'' \<mapsto> JArray [JNumber n]], status = 200\<rparr>"
proof -
  let ?n = "fst (get_random_int 100 999 s)"
  have "fst (get_flights ''AA'' args s) =
          Inr \<lparr>body = [''AA'' \<mapsto> JArray [JNumber ?n]], status = 200\<rparr>"
    using assms by (simp add: get_flights_ok)
  with get_random_int_range [of s] show ?thesis by blast
qed

theorem lookup_AA_shape_witness:
  "\<not> truthy (Map.empty ''raise'') \<and>
   (\<exists>n. 100 \<le> n \<and> n \<le> 999 \<and>
      fst (get_flights ''AA'' Map.empty \<lparr>trace = [], rng = (\<lambda>i. 1042 + i)\<rparr>) =
        Inr \<lparr>body = [''AA'' \<mapsto> JArray [JNumber n]], status = 200\<rparr>)"
  using lookup_AA_shape [where args = "Map.empty" and s = "\<lparr>trace = [], rng = (\<lambda>i. 1042 + i)\<rparr>"]
  by simp

text \<open>
  C5: when the \<open>raise\<close> parameter is absent or empty and the request supplies
  \<open>passenger_name\<close> and \<open>flight_num\<close>, \<open>book_flight\<close> returns status 200 and a body
  with exactly the keys \<open>passenger_name\<close>, \<open>flight_num\<close> and \<open>booking_id\<close>: the first
  two hold the supplied strings unchanged, the third an integer N with
  100 \<le> N \<le> 999.
\<close>

theorem booking_shape:
  assumes "args ''passenger_name'' = Some p" and "args ''flight_num'' = Some f"
    and "\<not> truthy (args ''raise'')"
  shows "\<exists>n resp. 100 \<le> n \<and> n \<le> 999 \<and>
           fst (book_flight args s) = Inr resp \<and> status resp = 200 \<and>
           dom (body resp) = {''passenger_name'', ''flight_num'', ''booking_id''} \<and>
           body resp ''passenger_name'' = Some (JString p) \<and>
           body resp ''flight_num'' = Some (JString f) \<and>
           body resp ''booking_id'' = Some (JNumber n)"
proof -
  let ?n = "fst (get_random_int 100 999 s)"
  let ?resp = "\<lparr>body = [''passenger_name'' \<mapsto> JString p, ''flight_num'' \<mapsto> JString f,
                         ''booking_id'' \<mapsto> JNumber ?n], status = 200\<rparr>"
  have r: "fst (book_flight args s) = Inr ?resp"
    using assms by (simp add: book_flight_ok)
  have d: "dom (body ?resp) = {''passenger_name'', ''flight_num'', ''booking_id''}"
    by (simp add: insert_commute)
  have b: "body ?resp ''passenger_name'' = Some (JString p) \<and>
           body ?resp ''flight_num'' = Some (JString f) \<and>
           body ?resp ''booking_id'' = Some (JNumber ?n)"
    by simp
  have s: "status ?resp = 200" by simp
  from r d b s get_random_int_range [of s] show ?thesis by blast
qed

theorem booking_shape_witness:
  "[''passenger_name'' \<mapsto> ''John Doe'', ''flight_num'' \<mapsto> ''101''] ''passenger_name''
     = Some ''John Doe'' \<and>
   [''passenger_name'' \<mapsto> ''John Doe'', ''flight_num'' \<mapsto> ''101''] ''flight_num''
     = Some ''101'' \<and>
   \<not> truthy ([''passenger_name'' \<mapsto> ''John Doe'', ''flight_num'' \<mapsto> ''101''] ''raise'') \<and>
   (\<exists>n resp. 100 \<le> n \<and> n \<le> 999 \<and>
      fst (book_flight [''passenger_name'' \<mapsto> ''John Doe'', ''flight_num'' \<mapsto> ''101''] \<lparr>trace = [], rng = (\<lambda>i. 1042 + i)\<rparr>)
        = Inr resp \<and> status resp = 200 \<and>
      dom (body resp) = {''passenger_name'', ''flight_num'', ''booking_id''} \<and>
      body resp ''passenger_name'' = Some (JString ''John Doe'') \<and>
      body resp ''flight_num'' = Some (JString ''101'') \<and>
      body resp ''booking_id'' = Some (JNumber n))"
  using booking_shape [where args = "[''passenger_name'' \<mapsto> ''John Doe'', ''flight_num'' \<mapsto> ''101'']"
      and p = "''John Doe''" and f = "''101''" and s = "\<lparr>trace = [], rng = (\<lambda>i. 1042 + i)\<rparr>"]
  by simp

text \<open>
  C7: \<open>get_flights\<close> does not validate the airline: for every string, also one outside
  the documented set AA, UA, DL, whether the handler raises depends on the \<open>raise\<close>
  parameter alone, and on the success path the supplied string is the one key of the
  body, with status 200.
\<close>

theorem airline_not_validated:
  "isl (fst (get_flights airline args s)) = truthy (args ''raise'') \<and>
   (\<not> truthy (args ''raise'') \<longrightarrow>
      (\<exists>n. fst (get_flights airline args s) =
         Inr \<lparr>body = [airline \<mapsto> JArray [JNumber n]], status = 200\<rparr>))"
proof (cases "truthy (args ''raise'')")
  case True
  then show ?thesis by (simp add: get_flights_fail)
next
  case False
  let ?n = "fst (get_random_int 100 999 s)"
  have r: "fst (get_flights airline args s) =
             Inr \<lparr>body = [airline \<mapsto> JArray [JNumber ?n]], status = 200\<rparr>"
    using False by (simp add: get_flights_ok)
  then have e: "\<exists>n. fst (get_flights airline args s) =
                  Inr \<lparr>body = [airline \<mapsto> JArray [JNumber n]], status = 200\<rparr>"
    by (rule exI)
  from r False have "isl (fst (get_flights airline args s)) = truthy (args ''raise'')"
    by simp
  with e show ?thesis by blast
qed

theorem airline_not_validated_witness:
  "\<not> truthy (Map.empty ''raise'') \<and>
   \<not> isl (fst (get_flights ''no such airline'' Map.empty \<lparr>trace = [], rng = (\<lambda>i. 1042 + i)\<rparr>)) \<and>
   (\<exists>n. fst (get_flights ''no such airline'' Map.empty \<lparr>trace = [], rng = (\<lambda>i. 1042 + i)\<rparr>) =
      Inr \<lparr>body = [''no such airline'' \<mapsto> JArray [JNumber n]], status = 200\<rparr>)"
  using airline_not_validated [where airline = "''no such airline''"
      and args = "Map.empty" and s = "\<lparr>trace = [], rng = (\<lambda>i. 1042 + i)\<rparr>"]
  by simp

text \<open>
  C8: in both handlers the first effect is the entry record of level INFO, which holds
  the parameters already extracted; the branch on the \<open>raise\<close> parameter comes next.
  On the failure path the only further effect is the ERROR record and the generator's
  state is untouched: the generator is not called. On the success path the generator is
  called once, with 100 and 999, after the entry record and before the result record.
\<close>

theorem control_flow_order:
  "trace (snd (get_flights airline args s)) =
     trace s @
     Log INFO ''Get flights endpoint called for airline=%s, raise=%s''
       [PyStr airline, arg_val (args ''raise'')] #
     (if truthy (args ''raise'')
      then [Log ERROR ''Exception intentionally raised in flights endpoint for airline=%s''
              [PyStr airline]]
      else [RandomInt 100 999 (fst (get_random_int 100 999 s)),
            Log INFO ''Returning flight %s for airline %s''
              [PyInt (fst (get_random_int 100 999 s)), PyStr airline]]) \<and>
   rng (snd (get_flights airline args s)) =
     (if truthy (args ''raise'') then rng s else (\<lambda>i. rng s (Suc i))) \<and>
   trace (snd (book_flight args s)) =
     trace s @
     Log INFO ''Book flight endpoint called for passenger=%s, flight_num=%s, raise=%s''
       [arg_val (args ''passenger_name''), arg_val (args ''flight_num''),
        arg_val (args ''raise'')] #
     (if truthy (args ''raise'')
      then [Log ERROR
              ''Exception intentionally raised in book flight endpoint for passenger=%s''
              [arg_val (args ''passenger_name'')]]
      else [RandomInt 100 999 (fst (get_random_int 100 999 s)),
            Log INFO ''Booked flight %s for passenger %s with booking_id %s''
              [arg_val (args ''flight_num''), arg_val (args ''passenger_name''),
               PyInt (fst (get_random_int 100 999 s))]]) \<and>
   rng (snd (book_flight args s)) =
     (if truthy (args ''raise'') then rng s else (\<lambda>i. rng s (Suc i)))"
proof (cases "truthy (args ''raise'')")
  case True
  then show ?thesis by (simp add: get_flights_fail book_flight_fail)
next
  case False
  then show ?thesis by (simp add: get_flights_ok book_flight_ok)
qed

theorem control_flow_order_witness:
  "trace (snd (get_flights ''AA'' [''raise'' \<mapsto> ''500''] \<lparr>trace = [], rng = (\<lambda>i. 1042 + i)\<rparr>)) =
     [Log INFO ''Get flights endpoint called for airline=%s, raise=%s''
        [PyStr ''AA'', PyStr ''500''],
      Log ERROR ''Exception intentionally raised in flights endpoint for airline=%s''
        [PyStr ''AA'']] \<and>
   rng (snd (get_flights ''AA'' [''raise'' \<mapsto> ''500''] \<lparr>trace = [], rng = (\<lambda>i. 1042 + i)\<rparr>)) = rng \<lparr>trace = [], rng = (\<lambda>i. 1042 + i)\<rparr> \<and>
   trace (snd (book_flight [''raise'' \<mapsto> ''500''] \<lparr>trace = [], rng = (\<lambda>i. 1042 + i)\<rparr>)) =
     [Log INFO ''Book flight endpoint called for passenger=%s, flight_num=%s, raise=%s''
        [PyNone, PyNone, PyStr ''500''],
      Log ERROR ''Exception intentionally raised in book flight endpoint for passenger=%s''
        [PyNone]] \<and>
   rng (snd (book_flight [''raise'' \<mapsto> ''500''] \<lparr>trace = [], rng = (\<lambda>i. 1042 + i)\<rparr>)) = rng \<lparr>trace = [], rng = (\<lambda>i. 1042 + i)\<rparr> \<and>
   trace (snd (get_flights ''AA'' Map.empty \<lparr>trace = [], rng = (\<lambda>i. 1042 + i)\<rparr>)) =
     [Log INFO ''Get flights endpoint called for airline=%s, raise=%s''
        [PyStr ''AA'', PyNone],
      RandomInt 100 999 242,
      Log INFO ''Returning flight %s for airline %s'' [PyInt 242, PyStr ''AA'']]"
  using control_flow_order [where airline = "''AA''" and args = "[''raise'' \<mapsto> ''500'']"
      and s = "\<lparr>trace = [], rng = (\<lambda>i. 1042 + i)\<rparr>"]
    control_flow_order [where airline = "''AA''" and args = "Map.empty" and s = "\<lparr>trace = [], rng = (\<lambda>i. 1042 + i)\<rparr>"]
  by (simp add: get_random_int_fst)

text \<open>
  C9: whether \<open>book_flight\<close> raises depends on the \<open>raise\<close> parameter alone, so a
  missing \<open>passenger_name\<close> or \<open>flight_num\<close> produces no error: without a failure
  trigger the handler returns status 200, and the body holds null for a missing field.
\<close>

theorem missing_parameters_give_null:
  "isl (fst (book_flight args s)) = truthy (args ''raise'') \<and>
   (\<not> truthy (args ''raise'') \<longrightarrow>
      (\<exists>resp. fst (book_flight args s) = Inr resp \<and> status resp = 200 \<and>
         (args ''passenger_name'' = None \<longrightarrow> body resp ''passenger_name'' = Some JNull) \<and>
         (args ''flight_num'' = None \<longrightarrow> body resp ''flight_num'' = Some JNull)))"
proof (cases "truthy (args ''raise'')")
  case True
  then show ?thesis by (simp add: book_flight_fail)
next
  case False
  then show ?thesis by (simp add: book_flight_ok)
qed

theorem missing_parameters_give_null_witness:
  "\<not> truthy (Map.empty ''raise'') \<and>
   Map.empty ''passenger_name'' = (None :: string option) \<and>
   Map.empty ''flight_num'' = (None :: string option) \<and>
   \<not> isl (fst (book_flight Map.empty \<lparr>trace = [], rng = (\<lambda>i. 1042 + i)\<rparr>)) \<and>
   (\<exists>resp. fst (book_flight Map.empty \<lparr>trace = [], rng = (\<lambda>i. 1042 + i)\<rparr>) = Inr resp \<and> status resp = 200 \<and>
      body resp ''passenger_name'' = Some JNull \<and>
      body resp ''flight_num'' = Some JNull)"
  using missing_parameters_give_null [where args = "Map.empty" and s = "\<lparr>trace = [], rng = (\<lambda>i. 1042 + i)\<rparr>"]
  by simp

text \<open>
  C10: two executions of \<open>get_flights\<close>, or of \<open>book_flight\<close>, that agree on the
  parameters the handler reads and in which the generator returns the same integer give
  the same result (body and status, or exception), whatever else differs between the
  two states: the log so far and the generator's raw state.
\<close>

theorem deterministic_modulo_generator:
  assumes "fst (get_random_int 100 999 s1) = fst (get_random_int 100 999 s2)"
    and "args1 ''raise'' = args2 ''raise''"
    and "args1 ''passenger_name'' = args2 ''passenger_name''"
    and "args1 ''flight_num'' = args2 ''flight_num''"
  shows "fst (get_flights airline args1 s1) = fst (get_flights airline args2 s2) \<and>
         fst (book_flight args1 s1) = fst (book_flight args2 s2)"
proof (cases "truthy (args1 ''raise'')")
  case True
  with assms have "truthy (args2 ''raise'')" by simp
  with True assms show ?thesis by (simp add: get_flights_fail book_flight_fail)
next
  case False
  with assms have "\<not> truthy (args2 ''raise'')" by simp
  with False assms show ?thesis by (simp add: get_flights_ok book_flight_ok)
qed

theorem deterministic_modulo_generator_witness:
  "fst (get_random_int 100 999 \<lparr>trace = [], rng = (\<lambda>i. 1042 + i)\<rparr>) =
     fst (get_random_int 100 999
            \<lparr>trace = [Log INFO ''Home endpoint called'' []], rng = (\<lambda>i. 142)\<rparr>) \<and>
   fst (get_flights ''AA'' Map.empty \<lparr>trace = [], rng = (\<lambda>i. 1042 + i)\<rparr>) =
     fst (get_flights ''AA'' [''debug'' \<mapsto> ''1'']
            \<lparr>trace = [Log INFO ''Home endpoint called'' []], rng = (\<lambda>i. 142)\<rparr>) \<and>
   fst (book_flight Map.empty \<lparr>trace = [], rng = (\<lambda>i. 1042 + i)\<rparr>) =
     fst (book_flight [''debug'' \<mapsto> ''1'']
            \<lparr>trace = [Log INFO ''Home endpoint called'' []], rng = (\<lambda>i. 142)\<rparr>)"
  using deterministic_modulo_generator [where ?s1.0 = "\<lparr>trace = [], rng = (\<lambda>i. 1042 + i)\<rparr>"
      and ?s2.0 = "\<lparr>trace = [Log INFO ''Home endpoint called'' []], rng = (\<lambda>i. 142)\<rparr>"
      and ?args1.0 = "Map.empty" and ?args2.0 = "[''debug'' \<mapsto> ''1'']"
      and airline = "''AA''"]
  by (simp add: get_random_int_fst)

end
